theory Spec2Isabelle
  imports Main
begin

chapter \<open>Offline queue and sync engine of the gym management client\<close>

text \<open>
  The client keeps mutating requests that could not reach the server in a queue stored
  under the \<open>localStorage\<close> key \<open>gf_offline_queue\<close>, and replays them when the browser
  comes back online. This theory embeds the functions \<open>api\<close>, \<open>getOfflineQueue\<close>,
  \<open>saveOfflineQueue\<close>, \<open>addToOfflineQueue\<close>, \<open>syncOfflineData\<close> and
  \<open>updateSyncIndicator\<close> of the client script, together with the parts of the browser
  they touch: the two storage slots, \<open>navigator.onLine\<close>, the sync indicator and its
  button, the active navigation item, and the network.
\<close>

section \<open>JSON\<close>

text \<open>
  \<open>JSON.stringify\<close> and \<open>JSON.parse\<close> are browser functions. They are modelled on
  the JSON values the queue is made of: \<open>null\<close>, booleans, integers (\<open>Date.now()\<close> is
  one), strings of 8-bit characters, arrays, and objects as association lists in
  property order. Number literals with a fraction or an exponent, and \<open>\u\<close> escapes
  above \<open>00ff\<close>, are outside this fragment: the parser rejects them. The parser takes
  fuel bounded by the length of its input. An object literal with a repeated key keeps
  the position of the first occurrence and the value of the last, as in JavaScript.
\<close>

datatype json =
    JNull
  | JBool bool
  | JNum int
  | JStr string
  | JArr "json list"
  | JObj "(string \<times> json) list"

definition dq :: char where "dq = CHR 0x22"
definition bsl :: char where "bsl = CHR 0x5C"

definition is_digit :: "char \<Rightarrow> bool" where
  "is_digit c = (48 \<le> (of_char c :: nat) \<and> (of_char c :: nat) \<le> 57)"

definition digit_char :: "nat \<Rightarrow> char" where
  "digit_char d = char_of (48 + d)"

definition digit_val :: "char \<Rightarrow> nat" where
  "digit_val c = of_char c - 48"

fun show_nat :: "nat \<Rightarrow> string" where
  "show_nat n = (if n < 10 then [digit_char n] else show_nat (n div 10) @ [digit_char (n mod 10)])"

declare show_nat.simps [simp del]

definition show_int :: "int \<Rightarrow> string" where
  "show_int i = (if i < 0 then CHR ''-'' # show_nat (nat (- i)) else show_nat (nat i))"

definition hex_char :: "nat \<Rightarrow> char" where
  "hex_char d = (if d < 10 then char_of (48 + d) else char_of (87 + d))"

definition escape_char :: "char \<Rightarrow> string" where
  "escape_char c =
     (if c = dq then [bsl, dq]
      else if c = bsl then [bsl, bsl]
      else if c = CHR 0x08 then [bsl, CHR ''b'']
      else if c = CHR 0x0C then [bsl, CHR ''f'']
      else if c = CHR 0x0A then [bsl, CHR ''n'']
      else if c = CHR 0x0D then [bsl, CHR ''r'']
      else if c = CHR 0x09 then [bsl, CHR ''t'']
      else if (of_char c :: nat) < 32
        then [bsl, CHR ''u'', CHR ''0'', CHR ''0'', hex_char (of_char c div 16), hex_char (of_char c mod 16)]
      else [c])"

definition quote :: "string \<Rightarrow> string" where
  "quote s = dq # concat (map escape_char s) @ [dq]"

fun commas :: "string list \<Rightarrow> string" where
  "commas [] = []"
| "commas [x] = x"
| "commas (x # y # ys) = x @ CHR '','' # commas (y # ys)"

fun stringify :: "json \<Rightarrow> string" where
  "stringify JNull = ''null''"
| "stringify (JBool b) = (if b then ''true'' else ''false'')"
| "stringify (JNum i) = show_int i"
| "stringify (JStr s) = quote s"
| "stringify (JArr vs) = CHR ''['' # commas (map stringify vs) @ '']''"
| "stringify (JObj kvs) =
     CHR ''{'' # commas (map (\<lambda>(k, v). quote k @ CHR '':'' # stringify v) kvs) @ ''}''"


definition is_ws :: "char \<Rightarrow> bool" where
  "is_ws c = (c = CHR 0x20 \<or> c = CHR 0x09 \<or> c = CHR 0x0A \<or> c = CHR 0x0D)"

fun skip_ws :: "string \<Rightarrow> string" where
  "skip_ws [] = []"
| "skip_ws (c # cs) = (if is_ws c then skip_ws cs else c # cs)"

definition hex_val :: "char \<Rightarrow> nat option" where
  "hex_val c =
     (let n = (of_char c :: nat) in
      if 48 \<le> n \<and> n \<le> 57 then Some (n - 48)
      else if 97 \<le> n \<and> n \<le> 102 then Some (n - 87)
      else if 65 \<le> n \<and> n \<le> 70 then Some (n - 55)
      else None)"

definition hex4 :: "string \<Rightarrow> nat option" where
  "hex4 hs =
     (case map hex_val hs of
        [Some a, Some b, Some c, Some d] \<Rightarrow> Some (((a * 16 + b) * 16 + c) * 16 + d)
      | _ \<Rightarrow> None)"

definition unescape :: "char \<Rightarrow> char option" where
  "unescape e =
     (if e = dq then Some dq
      else if e = bsl then Some bsl
      else if e = CHR ''/'' then Some CHR ''/''
      else if e = CHR ''b'' then Some (CHR 0x08)
      else if e = CHR ''f'' then Some (CHR 0x0C)
      else if e = CHR ''n'' then Some (CHR 0x0A)
      else if e = CHR ''r'' then Some (CHR 0x0D)
      else if e = CHR ''t'' then Some (CHR 0x09)
      else None)"

definition cons_chars :: "char \<Rightarrow> (string \<times> string) option \<Rightarrow> (string \<times> string) option" where
  "cons_chars c r = (case r of None \<Rightarrow> None | Some (s, rest) \<Rightarrow> Some (c # s, rest))"

fun parse_chars :: "nat \<Rightarrow> string \<Rightarrow> (string \<times> string) option" where
  "parse_chars 0 s = None"
| "parse_chars (Suc n) [] = None"
| "parse_chars (Suc n) (c # cs) =
     (if c = dq then Some ([], cs)
      else if c = bsl then
        (case cs of
           [] \<Rightarrow> None
         | e # es \<Rightarrow>
             if e = CHR ''u'' then
               (case hex4 (take 4 es) of
                  None \<Rightarrow> None
                | Some k \<Rightarrow> if k < 256 then cons_chars (char_of k) (parse_chars n (drop 4 es)) else None)
             else
               (case unescape e of
                  None \<Rightarrow> None
                | Some ch \<Rightarrow> cons_chars ch (parse_chars n es)))
      else if (of_char c :: nat) < 32 then None
      else cons_chars c (parse_chars n cs))"

definition digits_val :: "string \<Rightarrow> nat" where
  "digits_val ds = foldl (\<lambda>acc c. acc * 10 + digit_val c) 0 ds"

definition parse_nat :: "string \<Rightarrow> (nat \<times> string) option" where
  "parse_nat s =
     (let ds = takeWhile is_digit s; rest = dropWhile is_digit s in
      if ds = [] then None
      else if 1 < length ds \<and> hd ds = CHR ''0'' then None
      else if rest \<noteq> [] \<and> hd rest \<in> {CHR ''.'', CHR ''e'', CHR ''E''} then None
      else Some (digits_val ds, rest))"

definition parse_number :: "string \<Rightarrow> (int \<times> string) option" where
  "parse_number s =
     (case s of
        [] \<Rightarrow> None
      | c # cs \<Rightarrow>
          if c = CHR ''-'' then map_option (\<lambda>(k, r). (- int k, r)) (parse_nat cs)
          else map_option (\<lambda>(k, r). (int k, r)) (parse_nat s))"

fun obj_put :: "string \<Rightarrow> json \<Rightarrow> (string \<times> json) list \<Rightarrow> (string \<times> json) list" where
  "obj_put k v [] = [(k, v)]"
| "obj_put k v ((k', v') # kvs) = (if k' = k then (k, v) # kvs else (k', v') # obj_put k v kvs)"

definition obj_of :: "(string \<times> json) list \<Rightarrow> (string \<times> json) list" where
  "obj_of kvs = foldl (\<lambda>acc (k, v). obj_put k v acc) [] kvs"

fun parse_value :: "nat \<Rightarrow> string \<Rightarrow> (json \<times> string) option"
  and parse_elems :: "nat \<Rightarrow> string \<Rightarrow> (json list \<times> string) option"
  and parse_members :: "nat \<Rightarrow> string \<Rightarrow> ((string \<times> json) list \<times> string) option"
where
  "parse_value 0 s = None"
| "parse_value (Suc n) s =
     (case s of
        [] \<Rightarrow> None
      | c # cs \<Rightarrow>
          if c = CHR ''n'' then (if take 4 s = ''null'' then Some (JNull, drop 4 s) else None)
          else if c = CHR ''t'' then (if take 4 s = ''true'' then Some (JBool True, drop 4 s) else None)
          else if c = CHR ''f'' then (if take 5 s = ''false'' then Some (JBool False, drop 5 s) else None)
          else if c = dq then
            (case parse_chars (length cs) cs of None \<Rightarrow> None | Some (str, r) \<Rightarrow> Some (JStr str, r))
          else if c = CHR ''['' then
            (case skip_ws cs of
               [] \<Rightarrow> None
             | d # ds \<Rightarrow>
                 if d = CHR '']'' then Some (JArr [], ds)
                 else (case parse_elems n (d # ds) of
                         None \<Rightarrow> None
                       | Some (vs, r) \<Rightarrow> Some (JArr vs, r)))
          else if c = CHR ''{'' then
            (case skip_ws cs of
               [] \<Rightarrow> None
             | d # ds \<Rightarrow>
                 if d = CHR ''}'' then Some (JObj [], ds)
                 else (case parse_members n (d # ds) of
                         None \<Rightarrow> None
                       | Some (kvs, r) \<Rightarrow> Some (JObj (obj_of kvs), r)))
          else (case parse_number s of None \<Rightarrow> None | Some (i, r) \<Rightarrow> Some (JNum i, r)))"
| "parse_elems 0 s = None"
| "parse_elems (Suc n) s =
     (case parse_value n s of
        None \<Rightarrow> None
      | Some (v, r) \<Rightarrow>
          (case skip_ws r of
             [] \<Rightarrow> None
           | d # ds \<Rightarrow>
               if d = CHR '','' then
                 (case parse_elems n (skip_ws ds) of
                    None \<Rightarrow> None
                  | Some (vs, r') \<Rightarrow> Some (v # vs, r'))
               else if d = CHR '']'' then Some ([v], ds)
               else None))"
| "parse_members 0 s = None"
| "parse_members (Suc n) s =
     (case s of
        [] \<Rightarrow> None
      | c # cs \<Rightarrow>
          if c \<noteq> dq then None
          else
            (case parse_chars (length cs) cs of
               None \<Rightarrow> None
             | Some (k, r) \<Rightarrow>
                 (case skip_ws r of
                    [] \<Rightarrow> None
                  | d # ds \<Rightarrow>
                      if d \<noteq> CHR '':'' then None
                      else
                        (case parse_value n (skip_ws ds) of
                           None \<Rightarrow> None
                         | Some (v, r') \<Rightarrow>
                             (case skip_ws r' of
                                [] \<Rightarrow> None
                              | d' # ds' \<Rightarrow>
                                  if d' = CHR '','' then
                                    (case parse_members n (skip_ws ds') of
                                       None \<Rightarrow> None
                                     | Some (kvs, r'') \<Rightarrow> Some ((k, v) # kvs, r''))
                                  else if d' = CHR ''}'' then Some ([(k, v)], ds')
                                  else None)))))"

definition JSON_parse :: "string \<Rightarrow> json option" where
  "JSON_parse s =
     (case parse_value (Suc (length s)) (skip_ws s) of
        None \<Rightarrow> None
      | Some (v, r) \<Rightarrow> if skip_ws r = [] then Some v else None)"

section \<open>JavaScript values\<close>

text \<open>
  A JavaScript value is a JSON value or \<open>undefined\<close> (\<open>None\<close>). Property reads,
  truthiness, strict equality and string conversion are the ones the offline layer
  uses. Reading a property of \<open>null\<close> raises \<open>TypeError\<close>; the callers below test for
  \<open>JNull\<close> before they read.
\<close>

type_synonym js_value = "json option"

datatype js_error = JsError (err_name: string) (err_message: string)

datatype 'a completion = Returned 'a | Threw js_error

fun is_returned :: "'a completion \<Rightarrow> bool" where
  "is_returned (Returned v) = True"
| "is_returned (Threw e) = False"

fun truthy :: "js_value \<Rightarrow> bool" where
  "truthy None = False"
| "truthy (Some JNull) = False"
| "truthy (Some (JBool b)) = b"
| "truthy (Some (JNum i)) = (i \<noteq> 0)"
| "truthy (Some (JStr s)) = (s \<noteq> [])"
| "truthy (Some (JArr vs)) = True"
| "truthy (Some (JObj kvs)) = True"

fun get_prop :: "json \<Rightarrow> string \<Rightarrow> js_value" where
  "get_prop (JObj kvs) k = map_of kvs k"
| "get_prop v k = None"

fun is_primitive :: "js_value \<Rightarrow> bool" where
  "is_primitive (Some (JArr vs)) = False"
| "is_primitive (Some (JObj kvs)) = False"
| "is_primitive v = True"

definition strict_eq :: "js_value \<Rightarrow> js_value \<Rightarrow> bool" where
  "strict_eq a b = (a = b \<and> is_primitive a)"

fun js_length :: "json \<Rightarrow> nat option" where
  "js_length (JArr vs) = Some (length vs)"
| "js_length (JStr s) = Some (length s)"
| "js_length v = None"

fun iter_items :: "json \<Rightarrow> json list option" where
  "iter_items (JArr vs) = Some vs"
| "iter_items (JStr s) = Some (map (\<lambda>c. JStr [c]) s)"
| "iter_items v = None"

fun to_str :: "json \<Rightarrow> string" where
  "to_str JNull = ''null''"
| "to_str (JBool b) = (if b then ''true'' else ''false'')"
| "to_str (JNum i) = show_int i"
| "to_str (JStr s) = s"
| "to_str (JArr vs) = commas (map (\<lambda>v. if v = JNull then [] else to_str v) vs)"
| "to_str (JObj kvs) = ''[object Object]''"

definition type_error :: "string \<Rightarrow> js_error" where
  "type_error m = JsError ''TypeError'' m"

section \<open>Browser state\<close>

record indicator =
  cls_online :: bool
  cls_offline :: bool
  cls_syncing :: bool
  sync_text :: string

record sync_button =
  btn_hidden :: bool
  btn_disabled :: bool

record request =
  req_endpoint :: js_value
  req_options :: json
  req_auth :: js_value

datatype fetch_result =
    Response nat "json option"
  | Rejected js_error

record arrival =
  fetched :: fetch_result
  onLine_then :: bool

datatype event = Sent request | Settled request bool

record world =
  queue_item :: "string option"
  session_item :: "string option"
  onLine :: bool
  now_ms :: int
  now_iso :: string
  indicator :: "indicator option"
  syncBtn :: "sync_button option"
  activePage :: "string option"
  loginShown :: bool
  alerts :: "string list"
  navigated :: "string list"
  netlog :: "event list"

type_synonym network = "event list \<Rightarrow> request \<Rightarrow> arrival"

section \<open>Session and routing\<close>

definition getItem :: "string option \<Rightarrow> string" where
  "getItem slot = (case slot of None \<Rightarrow> ''null'' | Some s \<Rightarrow> s)"

definition getSession :: "world \<Rightarrow> json" where
  "getSession w = (case JSON_parse (getItem (session_item w)) of None \<Rightarrow> JNull | Some v \<Rightarrow> v)"

definition getToken :: "world \<Rightarrow> js_value" where
  "getToken w = (let s = getSession w in if truthy (Some s) then get_prop s ''token'' else Some (JStr []))"

definition showLogin :: "world \<Rightarrow> world" where
  "showLogin w = w\<lparr>loginShown := True\<rparr>"

definition logout :: "world \<Rightarrow> world" where
  "logout w = showLogin (w\<lparr>session_item := None\<rparr>)"

definition alert :: "string \<Rightarrow> world \<Rightarrow> world" where
  "alert m w = w\<lparr>alerts := alerts w @ [m]\<rparr>"

definition navigate :: "string \<Rightarrow> world \<Rightarrow> world" where
  "navigate page w = w\<lparr>navigated := navigated w @ [page]\<rparr>"

section \<open>Offline queue\<close>

definition getOfflineQueue :: "world \<Rightarrow> json" where
  "getOfflineQueue w =
     (case JSON_parse (getItem (queue_item w)) of
        None \<Rightarrow> JArr []
      | Some v \<Rightarrow> if truthy (Some v) then v else JArr [])"

definition pending_text :: "json \<Rightarrow> string" where
  "pending_text queue =
     (case js_length queue of
        None \<Rightarrow> ''Online''
      | Some n \<Rightarrow> if 0 < n then show_nat n @ '' Pending'' else ''Online'')"

definition updateSyncIndicator :: "world \<Rightarrow> world" where
  "updateSyncIndicator w =
     (let queue = getOfflineQueue w; isOnline = onLine w in
      case indicator w of
        None \<Rightarrow> w
      | Some ind \<Rightarrow>
          if isOnline then
            w\<lparr>indicator :=
                 Some (ind\<lparr>cls_offline := False, cls_online := True,
                           sync_text := pending_text queue\<rparr>),
               syncBtn :=
                 map_option
                   (\<lambda>b. b\<lparr>btn_hidden := (js_length queue = Some 0), btn_disabled := False\<rparr>)
                   (syncBtn w)\<rparr>
          else
            w\<lparr>indicator :=
                 Some (ind\<lparr>cls_online := False, cls_offline := True, sync_text := ''Offline''\<rparr>),
               syncBtn := map_option (\<lambda>b. b\<lparr>btn_hidden := True\<rparr>) (syncBtn w)\<rparr>)"

definition saveOfflineQueue :: "json \<Rightarrow> world \<Rightarrow> world" where
  "saveOfflineQueue queue w = updateSyncIndicator (w\<lparr>queue_item := Some (stringify queue)\<rparr>)"

fun some_dup :: "js_value \<Rightarrow> json \<Rightarrow> json list \<Rightarrow> js_error + bool" where
  "some_dup endpoint options [] = Inr False"
| "some_dup endpoint options (item # items) =
     (if item = JNull then Inl (type_error ''Cannot read properties of null'')
      else if strict_eq (get_prop item ''endpoint'') endpoint
              \<and> map_option stringify (get_prop item ''options'') = Some (stringify options)
        then Inr True
      else some_dup endpoint options items)"

definition new_entry :: "js_value \<Rightarrow> json \<Rightarrow> world \<Rightarrow> json" where
  "new_entry endpoint options w =
     JObj ([(''id'', JNum (now_ms w))]
           @ (case endpoint of None \<Rightarrow> [] | Some e \<Rightarrow> [(''endpoint'', e)])
           @ [(''options'', options), (''timestamp'', JStr (now_iso w))])"

definition addToOfflineQueue :: "js_value \<Rightarrow> json \<Rightarrow> world \<Rightarrow> unit completion \<times> world" where
  "addToOfflineQueue endpoint options w =
     (case getOfflineQueue w of
        JArr queue \<Rightarrow>
          (case some_dup endpoint options queue of
             Inl e \<Rightarrow> (Threw e, w)
           | Inr isDup \<Rightarrow>
               if isDup then (Returned (), w)
               else (Returned (),
                     saveOfflineQueue (JArr (queue @ [new_entry endpoint options w])) w))
      | _ \<Rightarrow> (Threw (type_error ''queue.some is not a function''), w))"

section \<open>API layer\<close>

datatype try_outcome =
    TryReturned json
  | TryCaught js_error
  | TryUncaught js_error

definition res_ok :: "nat \<Rightarrow> bool" where
  "res_ok status = (200 \<le> status \<and> status \<le> 299)"

definition detail_message :: "json \<Rightarrow> string" where
  "detail_message err =
     (case get_prop err ''detail'' of
        None \<Rightarrow> ''API error''
      | Some d \<Rightarrow> if truthy (Some d) then to_str d else ''API error'')"

definition api_try :: "fetch_result \<Rightarrow> world \<Rightarrow> try_outcome \<times> world" where
  "api_try res w =
     (case res of
        Rejected e \<Rightarrow> (TryCaught e, w)
      | Response status body \<Rightarrow>
          if status = 401 then (TryCaught (JsError ''Error'' ''Session expired''), logout w)
          else if status = 403 then
            (TryCaught (JsError ''Error'' ''Forbidden''),
             alert ''Access denied: insufficient permissions'' w)
          else if \<not> res_ok status then
            (case body of
               None \<Rightarrow> (TryCaught (JsError ''Error'' ''Request failed''), w)
             | Some err \<Rightarrow>
                 if err = JNull
                 then (TryCaught (type_error ''Cannot read properties of null''), w)
                 else (TryCaught (JsError ''Error'' (detail_message err)), w))
          else
            (case body of
               None \<Rightarrow> (TryUncaught (JsError ''SyntaxError'' ''Unexpected end of JSON input''), w)
             | Some v \<Rightarrow> (TryReturned v, w)))"

definition isMutation :: "json \<Rightarrow> js_error + bool" where
  "isMutation options =
     (if options = JNull then Inl (type_error ''Cannot read properties of null'')
      else Inr (get_prop options ''method''
                  \<in> {Some (JStr ''POST''), Some (JStr ''PUT''), Some (JStr ''DELETE'')}))"

definition connectivity_failure :: "js_error \<Rightarrow> world \<Rightarrow> bool" where
  "connectivity_failure err w =
     (err_name err = ''AbortError'' \<or> \<not> onLine w \<or> err_message err = ''Failed to fetch'')"

definition queued_result :: json where
  "queued_result =
     JObj [(''status'', JStr ''queued''),
           (''message'', JStr ''Request timed out/offline: Data will sync when stable.'')]"

definition timeout_notice :: string where
  "timeout_notice = ''Connection Timeout: The server is taking too long to respond. Please check your internet connection and try again.''"

definition api_catch ::
  "js_error \<Rightarrow> js_value \<Rightarrow> json \<Rightarrow> bool \<Rightarrow> world \<Rightarrow> json completion \<times> world" where
  "api_catch err endpoint options skipQueue w =
     (let isTimeout = (err_name err = ''AbortError'');
          w1 = (if isTimeout then alert timeout_notice w else w)
      in case isMutation options of
           Inl e \<Rightarrow> (Threw e, w1)
         | Inr isMut \<Rightarrow>
             if connectivity_failure err w1 \<and> isMut \<and> \<not> skipQueue then
               (case addToOfflineQueue endpoint options w1 of
                  (Threw e, w2) \<Rightarrow> (Threw e, w2)
                | (Returned u, w2) \<Rightarrow> (Returned queued_result, w2))
             else (Threw err, w1))"

definition api_send :: "js_value \<Rightarrow> json \<Rightarrow> world \<Rightarrow> request \<times> world" where
  "api_send endpoint options w =
     (let token = getToken w;
          req = \<lparr>req_endpoint = endpoint, req_options = options,
                 req_auth = (if truthy token then token else None)\<rparr>
      in (req, w\<lparr>netlog := netlog w @ [Sent req]\<rparr>))"

definition api_settle ::
  "network \<Rightarrow> request \<Rightarrow> js_value \<Rightarrow> json \<Rightarrow> bool \<Rightarrow> world \<Rightarrow> json completion \<times> world" where
  "api_settle net req endpoint options skipQueue w =
     (let a = net (netlog w) req;
          w1 = w\<lparr>onLine := onLine_then a\<rparr>;
          (t, w2) = api_try (fetched a) w1;
          (c, w3) = (case t of
                       TryReturned v \<Rightarrow> (Returned v, w2)
                     | TryUncaught e \<Rightarrow> (Threw e, w2)
                     | TryCaught err \<Rightarrow> api_catch err endpoint options skipQueue w2)
      in (c, w3\<lparr>netlog := netlog w3 @ [Settled req (is_returned c)]\<rparr>))"

definition default_options :: "js_value \<Rightarrow> json" where
  "default_options options = (case options of None \<Rightarrow> JObj [] | Some opts \<Rightarrow> opts)"

definition api :: "network \<Rightarrow> js_value \<Rightarrow> js_value \<Rightarrow> bool \<Rightarrow> world \<Rightarrow> json completion \<times> world" where
  "api net endpoint options skipQueue w =
     (let opts = default_options options;
          (req, w1) = api_send endpoint opts w
      in api_settle net req endpoint opts skipQueue w1)"

definition apiGet :: "network \<Rightarrow> string \<Rightarrow> world \<Rightarrow> json completion \<times> world" where
  "apiGet net path w = api net (Some (JStr path)) None False w"

definition apiPost :: "network \<Rightarrow> string \<Rightarrow> json \<Rightarrow> world \<Rightarrow> json completion \<times> world" where
  "apiPost net path data w =
     api net (Some (JStr path))
       (Some (JObj [(''method'', JStr ''POST''), (''body'', JStr (stringify data))])) False w"

definition apiPut :: "network \<Rightarrow> string \<Rightarrow> json \<Rightarrow> world \<Rightarrow> json completion \<times> world" where
  "apiPut net path data w =
     api net (Some (JStr path))
       (Some (JObj [(''method'', JStr ''PUT''), (''body'', JStr (stringify data))])) False w"

definition apiDelete :: "network \<Rightarrow> string \<Rightarrow> world \<Rightarrow> json completion \<times> world" where
  "apiDelete net path w =
     api net (Some (JStr path)) (Some (JObj [(''method'', JStr ''DELETE'')])) False w"

section \<open>Sync engine\<close>

record drain_proc =
  inflight :: request
  cur_item :: json
  todo :: "json list"
  remaining :: "json list"
  successCount :: nat

datatype drain_state =
    Done world
  | Crashed js_error world
  | Awaiting drain_proc world

definition sync_finish :: "json list \<Rightarrow> nat \<Rightarrow> world \<Rightarrow> world" where
  "sync_finish rem sc w =
     (let w1 = saveOfflineQueue (JArr rem) w;
          w2 = (if 0 < sc
                then (case activePage w1 of None \<Rightarrow> w1 | Some page \<Rightarrow> navigate page w1)
                else w1);
          w3 = w2\<lparr>indicator := map_option (\<lambda>i. i\<lparr>cls_syncing := False\<rparr>) (indicator w2)\<rparr>
      in updateSyncIndicator w3)"

fun sync_advance :: "json list \<Rightarrow> json list \<Rightarrow> nat \<Rightarrow> world \<Rightarrow> drain_state" where
  "sync_advance [] rem sc w = Done (sync_finish rem sc w)"
| "sync_advance (item # items) rem sc w =
     (if item = JNull then sync_advance items (rem @ [item]) sc w
      else
        (let (req, w1) = api_send (get_prop item ''endpoint'') (default_options (get_prop item ''options'')) w
         in Awaiting \<lparr>inflight = req, cur_item = item, todo = items,
                       remaining = rem, successCount = sc\<rparr> w1))"

definition sync_resume :: "network \<Rightarrow> drain_proc \<Rightarrow> world \<Rightarrow> drain_state" where
  "sync_resume net p w =
     (case api_settle net (inflight p) (get_prop (cur_item p) ''endpoint'')
             (default_options (get_prop (cur_item p) ''options'')) True w of
        (Returned v, w') \<Rightarrow> sync_advance (todo p) (remaining p) (Suc (successCount p)) w'
      | (Threw e, w') \<Rightarrow> sync_advance (todo p) (remaining p @ [cur_item p]) (successCount p) w')"

definition sync_start :: "world \<Rightarrow> drain_state" where
  "sync_start w =
     (let queue = getOfflineQueue w in
      if js_length queue = Some 0 \<or> \<not> onLine w then Done w
      else
        (case indicator w of
           None \<Rightarrow> Crashed (type_error ''Cannot read properties of null'') w
         | Some ind \<Rightarrow>
             (let w1 = w\<lparr>indicator := Some (ind\<lparr>cls_syncing := True, sync_text := ''Syncing...''\<rparr>),
                          syncBtn := map_option (\<lambda>b. b\<lparr>btn_disabled := True\<rparr>) (syncBtn w)\<rparr>
              in case iter_items queue of
                   None \<Rightarrow> Crashed (type_error ''queue is not iterable'') w1
                 | Some items \<Rightarrow> sync_advance items [] 0 w1)))"

fun drain_measure :: "drain_state \<Rightarrow> nat" where
  "drain_measure (Awaiting p w) = Suc (length (todo p))"
| "drain_measure st = 0"

function sync_run :: "network \<Rightarrow> drain_state \<Rightarrow> unit completion \<times> world" where
  "sync_run net (Done w) = (Returned (), w)"
| "sync_run net (Crashed e w) = (Threw e, w)"
| "sync_run net (Awaiting p w) = sync_run net (sync_resume net p w)"
  by pat_completeness auto
termination
proof (relation "measure (\<lambda>(net, st). drain_measure st)")
  show "wf (measure (\<lambda>(net, st). drain_measure st))" by simp
next
  fix net :: network and p :: drain_proc and w :: world
  have adv: "drain_measure (sync_advance items rem sc v) \<le> length items"
    for items rem sc v
    by (induction items arbitrary: rem sc v) (auto simp: Let_def le_SucI split: prod.splits)
  have "drain_measure (sync_resume net p w) \<le> length (todo p)"
    unfolding sync_resume_def
    by (auto split: prod.splits completion.splits simp: adv)
  then show "((net, sync_resume net p w), (net, Awaiting p w))
               \<in> measure (\<lambda>(net, st). drain_measure st)"
    by simp
qed

definition syncOfflineData :: "network \<Rightarrow> world \<Rightarrow> unit completion \<times> world" where
  "syncOfflineData net w = sync_run net (sync_start w)"

definition window_online :: "world \<Rightarrow> drain_state" where
  "window_online w = sync_start (updateSyncIndicator w)"

definition window_offline :: "world \<Rightarrow> world" where
  "window_offline w = updateSyncIndicator w"

section \<open>Reference states\<close>

definition fresh_world :: world where
  "fresh_world =
     \<lparr>queue_item = None, session_item = None, onLine = True, now_ms = 1700000000000,
      now_iso = ''2023-11-14T22:13:20.000Z'',
      indicator = Some \<lparr>cls_online = True, cls_offline = False, cls_syncing = False,
                         sync_text = ''Online''\<rparr>,
      syncBtn = Some \<lparr>btn_hidden = True, btn_disabled = False\<rparr>,
      activePage = Some ''dashboard'', loginShown = False, alerts = [], navigated = [],
      netlog = []\<rparr>"

definition net_down :: network where
  "net_down log req = \<lparr>fetched = Rejected (JsError ''TypeError'' ''Failed to fetch''), onLine_then = False\<rparr>"

definition net_up :: network where
  "net_up log req = \<lparr>fetched = Response 200 (Some (JObj [])), onLine_then = True\<rparr>"


section \<open>Basic facts\<close>

lemma JSON_parse_null: "JSON_parse ''null'' = Some JNull"
  by code_simp

lemma getOfflineQueue_absent: "queue_item w = None \<Longrightarrow> getOfflineQueue w = JArr []"
  by (simp add: getOfflineQueue_def getItem_def JSON_parse_null)

section \<open>Draining an empty queue, or draining offline\<close>

text \<open>
  Claim C9. When the queue read at the start of \<open>syncOfflineData\<close> is empty, or
  \<open>navigator.onLine\<close> is false, the function returns at once and the whole browser
  state is the one it started from: the stored queue, the indicator, the button and
  everything else.
\<close>

theorem sync_noop_when_empty_or_offline:
  "getOfflineQueue w = JArr [] \<or> \<not> onLine w \<Longrightarrow> syncOfflineData net w = (Returned (), w)"
  by (auto simp: syncOfflineData_def sync_start_def)

theorem sync_noop_when_empty_or_offline_witness:
  "(getOfflineQueue fresh_world = JArr [] \<or> \<not> onLine fresh_world)
   \<and> syncOfflineData net_up fresh_world = (Returned (), fresh_world)"
proof -
  have h: "getOfflineQueue fresh_world = JArr [] \<or> \<not> onLine fresh_world"
    by (simp add: getOfflineQueue_absent fresh_world_def)
  show ?thesis
    using h sync_noop_when_empty_or_offline [OF h, of net_up] by simp
qed

end
